theory Spec2Isabelle
  imports Complex_Main "HOL-Library.Multiset"
begin

section \<open>Data model of \<open>trading/models.py\<close>\<close>

text \<open>
  The Django models become records and the database tables become lists of rows.
  A \<open>DecimalField\<close> value is a Python \<open>Decimal\<close>; its sums, differences, products
  and comparisons are modelled by the exact arithmetic of \<^typ>\<open>rat\<close> (the 28-digit
  precision of the decimal context is not modelled). Model instances carry their primary
  key; a foreign key holds the key of the row it refers to. Timestamps are natural
  numbers handed in by the caller (\<open>timezone.now\<close>). Limits that only the database
  backend enforces on a column (\<open>max_digits\<close>, \<open>max_length\<close>, the range of a
  \<open>PositiveIntegerField\<close>) are not part of the Python code and are not modelled.

  A Python \<open>str\<close> is the byte string of its UTF-8 encoding. The builtins of the Python
  runtime that the code calls are not code of the repository, and nothing is assumed
  about them: \<open>str.upper\<close> is a parameter \<open>up\<close> of every function that calls it, and
  the outcome of \<open>int(...)\<close> on the quantity of a request is an input of the buy action.
\<close>

type_synonym decimal = rat

datatype exn =
    ValidationError string
  | DoesNotExist
  | MultipleObjectsReturned
  | Http404
  | ValueError
  | TypeError
  | OverflowError
  | AttributeError

text \<open>The error kinds of the specification, as the exceptions the code raises for them.\<close>

abbreviation InvalidStock :: exn where
  "InvalidStock \<equiv> ValidationError ''Stock price must be positive''"

abbreviation InsufficientFunds :: exn where
  "InsufficientFunds \<equiv> ValidationError ''Insufficient funds''"

abbreviation InvalidHolding :: exn where
  "InvalidHolding \<equiv> ValidationError ''Quantity cannot be negative''"

record Stock =
  stock_id :: nat
  symbol :: string
  name :: string
  current_price :: decimal
  last_updated :: nat

record Portfolio =
  portfolio_id :: nat
  user :: nat
  balance :: decimal
  created_at :: nat

record StockHolding =
  portfolio :: nat
  stock :: nat
  quantity :: int

record Transaction =
  t_user :: nat
  t_stock :: nat
  transaction_type :: string
  t_quantity :: int
  price :: decimal
  timestamp :: nat
  total_amount :: "decimal option"

record PortfolioSnapshot =
  s_portfolio :: nat
  total_value :: decimal
  cash_balance :: decimal
  s_timestamp :: nat

record db =
  stocks :: "Stock list"
  portfolios :: "Portfolio list"
  holdings :: "StockHolding list"
  transactions :: "Transaction list"
  snapshots :: "PortfolioSnapshot list"

definition empty_db :: db where
  "empty_db = \<lparr>stocks = [], portfolios = [], holdings = [], transactions = [], snapshots = []\<rparr>"

subsection \<open>The ORM operations the models rely on\<close>

text \<open>
  \<open>Model.save\<close> of Django updates the row that has the instance's primary key and
  inserts the instance when there is no such row. A \<open>StockHolding\<close> row is identified
  by its (portfolio, stock) pair, which \<open>unique_together\<close> declares a key; a
  \<open>Transaction\<close> and a \<open>PortfolioSnapshot\<close> are only ever inserted.
\<close>

definition upsert :: "('a \<Rightarrow> 'k) \<Rightarrow> 'a \<Rightarrow> 'a list \<Rightarrow> 'a list" where
  "upsert key r rows =
     (if list_ex (\<lambda>x. key x = key r) rows
      then map (\<lambda>x. if key x = key r then r else x) rows
      else rows @ [r])"

text \<open>The key the database gives to a row inserted without one.\<close>

definition fresh_id :: "('a \<Rightarrow> nat) \<Rightarrow> 'a list \<Rightarrow> nat" where
  "fresh_id key rows = Suc (fold max (map key rows) 0)"

definition get_stock :: "db \<Rightarrow> nat \<Rightarrow> Stock option" where
  "get_stock d i = find (\<lambda>s. stock_id s = i) (stocks d)"

definition get_portfolio :: "db \<Rightarrow> nat \<Rightarrow> Portfolio option" where
  "get_portfolio d i = find (\<lambda>p. portfolio_id p = i) (portfolios d)"

section \<open>Stock\<close>

text \<open>
  \<open>Stock.clean\<close> assigns \<open>self.symbol.upper()\<close> to the instance and then raises when the
  price is not positive; the instance keeps the new symbol in both cases.
\<close>

definition Stock_clean :: "(string \<Rightarrow> string) \<Rightarrow> Stock \<Rightarrow> (exn + unit) \<times> Stock" where
  "Stock_clean up s =
     (let s1 = s\<lparr>symbol := up (symbol s)\<rparr>
      in if current_price s1 \<le> 0 then (Inl InvalidStock, s1) else (Inr (), s1))"

definition Stock_save ::
  "(string \<Rightarrow> string) \<Rightarrow> db \<Rightarrow> Stock \<Rightarrow> (exn + unit) \<times> Stock \<times> db" where
  "Stock_save up d s =
     (case Stock_clean up s of
        (Inl e, s1) \<Rightarrow> (Inl e, s1, d)
      | (Inr u, s1) \<Rightarrow> (Inr (), s1, d\<lparr>stocks := upsert stock_id s1 (stocks d)\<rparr>))"

text \<open>\<open>Stock.objects.create(symbol=..., name=..., current_price=...)\<close>.\<close>

definition Stock_objects_create ::
  "(string \<Rightarrow> string) \<Rightarrow> db \<Rightarrow> nat \<Rightarrow> string \<Rightarrow> string \<Rightarrow> decimal
     \<Rightarrow> (exn + unit) \<times> Stock \<times> db" where
  "Stock_objects_create up d now smb nm p =
     Stock_save up d \<lparr>stock_id = fresh_id stock_id (stocks d), symbol = smb, name = nm,
                      current_price = p, last_updated = now\<rparr>"

section \<open>StockHolding and Transaction\<close>

definition holding_key :: "StockHolding \<Rightarrow> nat \<times> nat" where
  "holding_key h = (portfolio h, stock h)"

definition StockHolding_clean :: "StockHolding \<Rightarrow> exn + unit" where
  "StockHolding_clean h = (if quantity h < 0 then Inl InvalidHolding else Inr ())"

definition StockHolding_save :: "db \<Rightarrow> StockHolding \<Rightarrow> (exn + unit) \<times> db" where
  "StockHolding_save d h =
     (case StockHolding_clean h of
        Inl e \<Rightarrow> (Inl e, d)
      | Inr u \<Rightarrow> (Inr (), d\<lparr>holdings := upsert holding_key h (holdings d)\<rparr>))"

text \<open>
  \<open>StockHolding.objects.get_or_create(portfolio=self, stock=stock, defaults={'quantity': 0})\<close>:
  the row of the pair when there is exactly one, a new row saved with the default
  quantity when there is none, and \<open>MultipleObjectsReturned\<close> otherwise.
\<close>

definition holdings_of :: "db \<Rightarrow> nat \<Rightarrow> nat \<Rightarrow> StockHolding list" where
  "holdings_of d pid sid = filter (\<lambda>h. portfolio h = pid \<and> stock h = sid) (holdings d)"

definition get_or_create :: "db \<Rightarrow> nat \<Rightarrow> nat \<Rightarrow> (exn + StockHolding) \<times> db" where
  "get_or_create d pid sid =
     (case holdings_of d pid sid of
        [] \<Rightarrow>
          (let h = \<lparr>portfolio = pid, stock = sid, quantity = 0\<rparr>
           in case StockHolding_save d h of
                (Inl e, d1) \<Rightarrow> (Inl e, d1)
              | (Inr u, d1) \<Rightarrow> (Inr h, d1))
      | [h] \<Rightarrow> (Inr h, d)
      | _ \<Rightarrow> (Inl MultipleObjectsReturned, d))"

text \<open>\<open>Transaction.save\<close> derives \<open>total_amount\<close> and stores the row.\<close>

definition Transaction_save :: "db \<Rightarrow> Transaction \<Rightarrow> Transaction \<times> db" where
  "Transaction_save d t =
     (let t1 = t\<lparr>total_amount := Some (price t * of_int (t_quantity t))\<rparr>
      in (t1, d\<lparr>transactions := transactions d @ [t1]\<rparr>))"

definition Transaction_objects_create ::
  "db \<Rightarrow> nat \<Rightarrow> nat \<Rightarrow> nat \<Rightarrow> string \<Rightarrow> int \<Rightarrow> decimal \<Rightarrow> Transaction \<times> db" where
  "Transaction_objects_create d now u sid ty q p =
     Transaction_save d \<lparr>t_user = u, t_stock = sid, transaction_type = ty, t_quantity = q,
                         price = p, timestamp = now, total_amount = None\<rparr>"

section \<open>Portfolio\<close>

definition Portfolio_save :: "db \<Rightarrow> Portfolio \<Rightarrow> db" where
  "Portfolio_save d p = d\<lparr>portfolios := upsert portfolio_id p (portfolios d)\<rparr>"

definition can_buy_stock :: "Portfolio \<Rightarrow> Stock \<Rightarrow> int \<Rightarrow> bool" where
  "can_buy_stock self stk q =
     (let total_cost = current_price stk * of_int q in balance self \<ge> total_cost)"

text \<open>
  \<open>Portfolio.buy_stock\<close>. An exception leaves behind what was written before it was
  raised, so the result carries the instance and the database in every case.
\<close>

definition buy_stock ::
  "db \<Rightarrow> nat \<Rightarrow> Portfolio \<Rightarrow> Stock \<Rightarrow> int \<Rightarrow> (exn + unit) \<times> Portfolio \<times> db" where
  "buy_stock d now self stk q =
     (if \<not> can_buy_stock self stk q then (Inl InsufficientFunds, self, d)
      else
        let total_cost = current_price stk * of_int q;
            self1 = self\<lparr>balance := balance self - total_cost\<rparr>;
            d1 = Portfolio_save d self1
        in case get_or_create d1 (portfolio_id self1) (stock_id stk) of
             (Inl e, d2) \<Rightarrow> (Inl e, self1, d2)
           | (Inr holding, d2) \<Rightarrow>
               (let holding1 = holding\<lparr>quantity := quantity holding + q\<rparr>
                in case StockHolding_save d2 holding1 of
                     (Inl e, d3) \<Rightarrow> (Inl e, self1, d3)
                   | (Inr u, d3) \<Rightarrow>
                       (let (t, d4) = Transaction_objects_create d3 now (user self1)
                                        (stock_id stk) ''BUY'' q (current_price stk)
                        in (Inr (), self1, d4))))"

text \<open>
  \<open>Portfolio.calculate_total_value\<close>: \<open>sum\<close> adds from the left, starting at 0, over
  \<open>self.holdings.all()\<close>; \<open>holding.stock\<close> reads the stock's row and raises
  \<open>DoesNotExist\<close> when there is none.
\<close>

fun sum_values :: "db \<Rightarrow> decimal \<Rightarrow> StockHolding list \<Rightarrow> exn + decimal" where
  "sum_values d acc [] = Inr acc"
| "sum_values d acc (h # hs) =
     (case get_stock d (stock h) of
        None \<Rightarrow> Inl DoesNotExist
      | Some s \<Rightarrow> sum_values d (acc + current_price s * of_int (quantity h)) hs)"

definition holdings_all :: "db \<Rightarrow> Portfolio \<Rightarrow> StockHolding list" where
  "holdings_all d self = filter (\<lambda>h. portfolio h = portfolio_id self) (holdings d)"

definition calculate_total_value :: "db \<Rightarrow> Portfolio \<Rightarrow> exn + decimal" where
  "calculate_total_value d self =
     (case sum_values d 0 (holdings_all d self) of
        Inl e \<Rightarrow> Inl e
      | Inr holdings_value \<Rightarrow> Inr (balance self + holdings_value))"

definition create_daily_snapshot ::
  "db \<Rightarrow> nat \<Rightarrow> Portfolio \<Rightarrow> (exn + PortfolioSnapshot) \<times> db" where
  "create_daily_snapshot d now self =
     (case calculate_total_value d self of
        Inl e \<Rightarrow> (Inl e, d)
      | Inr tv \<Rightarrow>
          (let snap = \<lparr>s_portfolio = portfolio_id self, total_value = tv,
                       cash_balance = balance self, s_timestamp = now\<rparr>
           in (Inr snap, d\<lparr>snapshots := snapshots d @ [snap]\<rparr>)))"

section \<open>The buy action of \<open>trading/views.py\<close>\<close>

text \<open>
  The action reads two values from the request. The outcome of
  \<open>int(request.data.get('quantity'))\<close> is the input \<open>int_quantity\<close>: the integer, or the
  exception that \<open>int\<close> raised (\<open>ValueError\<close> for a string that is no integer literal,
  \<open>TypeError\<close> for \<open>None\<close>, a list or an object, \<open>OverflowError\<close> for an infinite float;
  a subclass of \<open>ValueError\<close> counts as \<open>ValueError\<close>). The symbol of the request is a
  string, or a value that has no \<open>upper\<close> method (\<open>None\<close> for a missing key, a number, a
  list), which is \<open>None\<close> here.
\<close>

subsection \<open>\<open>str(...)\<close> of an integer, for the f-string\<close>

fun str_nat :: "nat \<Rightarrow> string" where
  "str_nat n =
     (if n < 10 then [char_of (48 + n)] else str_nat (n div 10) @ [char_of (48 + n mod 10)])"

definition str_int :: "int \<Rightarrow> string" where
  "str_int i = (if i < 0 then CHR ''-'' # str_nat (nat (- i)) else str_nat (nat i))"

subsection \<open>\<open>PortfolioViewSet.buy_stock\<close>\<close>

record response =
  status_code :: nat
  data :: "(string \<times> string) list"

definition get_object_or_404 :: "db \<Rightarrow> string \<Rightarrow> exn + Stock" where
  "get_object_or_404 d smb =
     (case filter (\<lambda>s. symbol s = smb) (stocks d) of
        [] \<Rightarrow> Inl Http404
      | [s] \<Rightarrow> Inr s
      | _ \<Rightarrow> Inl MultipleObjectsReturned)"

text \<open>
  \<open>self.get_queryset().first()\<close>: the portfolio of the user with the least primary key,
  \<open>None\<close> when the user has none.
\<close>

definition get_queryset_first :: "db \<Rightarrow> nat \<Rightarrow> Portfolio option" where
  "get_queryset_first d u =
     (case filter (\<lambda>p. user p = u) (portfolios d) of
        [] \<Rightarrow> None
      | p # ps \<Rightarrow> Some (fold (\<lambda>x m. if portfolio_id x < portfolio_id m then x else m) ps p))"

text \<open>
  The body of the \<open>try\<close>, in the order of the source: \<open>int\<close>, then \<open>symbol.upper()\<close> and
  the lookup of the stock, then the portfolio, the affordability check and the buy. The
  second component of the result tells whether \<open>Portfolio.buy_stock\<close> was called, and
  with which quantity.
\<close>

definition buy_action_body ::
  "(string \<Rightarrow> string) \<Rightarrow> db \<Rightarrow> nat \<Rightarrow> nat \<Rightarrow> exn + int \<Rightarrow> string option
     \<Rightarrow> (exn + response) \<times> int option \<times> db" where
  "buy_action_body up d now u int_quantity smb =
     (case int_quantity of
        Inl e \<Rightarrow> (Inl e, None, d)
      | Inr q \<Rightarrow>
     (case smb of
        None \<Rightarrow> (Inl AttributeError, None, d)
      | Some symbol_text \<Rightarrow>
     (case get_object_or_404 d (up symbol_text) of
        Inl e \<Rightarrow> (Inl e, None, d)
      | Inr stk \<Rightarrow>
     (case get_queryset_first d u of
        None \<Rightarrow> (Inl AttributeError, None, d)
      | Some pf \<Rightarrow>
          if can_buy_stock pf stk q
          then (case buy_stock d now pf stk q of
                  (Inl e, pf1, d1) \<Rightarrow> (Inl e, Some q, d1)
                | (Inr ok, pf1, d1) \<Rightarrow>
                    (Inr \<lparr>status_code = 200,
                          data = [(''status'', ''success''),
                                  (''message'', ''Successfully purchased '' @ str_int q
                                     @ '' shares of '' @ symbol_text)]\<rparr>,
                     Some q, d1))
          else (Inr \<lparr>status_code = 400,
                     data = [(''status'', ''error''),
                             (''message'', ''Insufficient funds for this purchase'')]\<rparr>,
                None, d)))))"

text \<open>The action: the body under \<open>except (ValueError, TypeError)\<close>.\<close>

definition view_buy_stock ::
  "(string \<Rightarrow> string) \<Rightarrow> db \<Rightarrow> nat \<Rightarrow> nat \<Rightarrow> exn + int \<Rightarrow> string option
     \<Rightarrow> (exn + response) \<times> int option \<times> db" where
  "view_buy_stock up d now u int_quantity smb =
     (case buy_action_body up d now u int_quantity smb of
        (Inl e, called, d1) \<Rightarrow>
          if e = ValueError \<or> e = TypeError
          then (Inr \<lparr>status_code = 400,
                     data = [(''status'', ''error''),
                             (''message'', ''Invalid quantity provided'')]\<rparr>,
                called, d1)
          else (Inl e, called, d1)
      | (Inr r, called, d1) \<Rightarrow> (Inr r, called, d1))"

section \<open>Sequences of writes\<close>

text \<open>
  Every operation of the code that writes to the database, as a step on the database;
  the instances and request values the callers hand in are arbitrary.
\<close>

datatype op =
    OpStockSave Stock
  | OpPortfolioSave Portfolio
  | OpHoldingSave StockHolding
  | OpBuy nat Portfolio Stock int
  | OpSnapshot nat Portfolio
  | OpViewBuy nat nat "exn + int" "string option"

fun step :: "(string \<Rightarrow> string) \<Rightarrow> db \<Rightarrow> op \<Rightarrow> db" where
  "step up d (OpStockSave s) = snd (snd (Stock_save up d s))"
| "step up d (OpPortfolioSave p) = Portfolio_save d p"
| "step up d (OpHoldingSave h) = snd (StockHolding_save d h)"
| "step up d (OpBuy now self stk q) = snd (snd (buy_stock d now self stk q))"
| "step up d (OpSnapshot now self) = snd (create_daily_snapshot d now self)"
| "step up d (OpViewBuy now u int_quantity smb) =
     snd (snd (view_buy_stock up d now u int_quantity smb))"

definition run :: "(string \<Rightarrow> string) \<Rightarrow> db \<Rightarrow> op list \<Rightarrow> db" where
  "run up d ops = foldl (step up) d ops"

definition holdings_nonneg :: "db \<Rightarrow> bool" where
  "holdings_nonneg d = list_all (\<lambda>h. 0 \<le> quantity h) (holdings d)"

section \<open>Notions used to state the properties\<close>

text \<open>The quantity a portfolio holds of a stock: 0 when it has no holding of it.\<close>

definition held_quantity :: "db \<Rightarrow> nat \<Rightarrow> nat \<Rightarrow> int" where
  "held_quantity d pid sid = (case holdings_of d pid sid of [] \<Rightarrow> 0 | h # hs \<Rightarrow> quantity h)"

text \<open>The market value of one holding, at the price in the stock's row.\<close>

definition holding_value :: "db \<Rightarrow> StockHolding \<Rightarrow> decimal" where
  "holding_value d h =
     (case get_stock d (stock h) of
        None \<Rightarrow> 0
      | Some s \<Rightarrow> current_price s * of_int (quantity h))"

text \<open>The instance after \<open>self.balance -= total_cost\<close>.\<close>

definition debited :: "Portfolio \<Rightarrow> Stock \<Rightarrow> int \<Rightarrow> Portfolio" where
  "debited self stk q = self\<lparr>balance := balance self - current_price stk * of_int q\<rparr>"

text \<open>The transaction a buy records.\<close>

definition buy_transaction :: "nat \<Rightarrow> Portfolio \<Rightarrow> Stock \<Rightarrow> int \<Rightarrow> Transaction" where
  "buy_transaction now self stk q =
     \<lparr>t_user = user self, t_stock = stock_id stk, transaction_type = ''BUY'', t_quantity = q,
      price = current_price stk, timestamp = now,
      total_amount = Some (current_price stk * of_int q)\<rparr>"

subsection \<open>The fixtures of \<open>tests/model.py\<close> and \<open>tests/performance.py\<close>\<close>

text \<open>
  What \<open>str.upper\<close> does to an ASCII string: the letters \<open>a\<close> to \<open>z\<close> become \<open>A\<close> to
  \<open>Z\<close> and every other ASCII character stays. It stands for \<open>str.upper\<close> in the examples
  below, whose strings are ASCII; the properties are proved for every \<open>up\<close>.
\<close>

definition ascii_upper :: "string \<Rightarrow> string" where
  "ascii_upper s =
     map (\<lambda>c. let n = (of_char c :: nat) in if 97 \<le> n \<and> n \<le> 122 then char_of (n - 32) else c) s"

definition aapl :: Stock where
  "aapl = \<lparr>stock_id = 1, symbol = ''AAPL'', name = ''Apple Inc.'', current_price = 150,
           last_updated = 0\<rparr>"

definition testuser_portfolio :: Portfolio where
  "testuser_portfolio = \<lparr>portfolio_id = 1, user = 1, balance = 1000, created_at = 0\<rparr>"

definition test_db :: db where
  "test_db = \<lparr>stocks = [aapl], portfolios = [testuser_portfolio], holdings = [],
              transactions = [], snapshots = []\<rparr>"

text \<open>A database with a second portfolio, other holdings, a transaction and a snapshot.\<close>

definition other_portfolio :: Portfolio where
  "other_portfolio = \<lparr>portfolio_id = 2, user = 2, balance = 50, created_at = 0\<rparr>"

definition googl :: Stock where
  "googl = \<lparr>stock_id = 2, symbol = ''GOOGL'', name = ''Google'', current_price = 100,
            last_updated = 0\<rparr>"

definition busy_db :: db where
  "busy_db =
     \<lparr>stocks = [aapl, googl],
      portfolios = [testuser_portfolio, other_portfolio],
      holdings = [\<lparr>portfolio = 2, stock = 1, quantity = 4\<rparr>,
                  \<lparr>portfolio = 1, stock = 1, quantity = 1\<rparr>,
                  \<lparr>portfolio = 1, stock = 2, quantity = 3\<rparr>],
      transactions = [\<lparr>t_user = 2, t_stock = 1, transaction_type = ''BUY'', t_quantity = 4,
                       price = 150, timestamp = 1, total_amount = Some 600\<rparr>],
      snapshots = [\<lparr>s_portfolio = 2, total_value = 650, cash_balance = 50, s_timestamp = 2\<rparr>]\<rparr>"

section \<open>Lemmas about the ORM operations\<close>

lemma find_None_append: "find P xs = None \<Longrightarrow> find P (xs @ ys) = find P ys"
  by (induction xs) (auto split: if_splits)

lemma list_ex_find_None: "\<not> list_ex P xs \<Longrightarrow> find P xs = None"
  by (induction xs) auto

lemma find_upsert: "find (\<lambda>x. key x = key r) (upsert key r rows) = Some r"
proof (cases "list_ex (\<lambda>x. key x = key r) rows")
  case True
  then have "find (\<lambda>x. key x = key r) (map (\<lambda>x. if key x = key r then r else x) rows) = Some r"
    by (induction rows) auto
  with True show ?thesis by (simp add: upsert_def)
next
  case False
  then show ?thesis
    by (simp add: upsert_def find_None_append list_ex_find_None)
qed

lemma filter_upsert_other:
  assumes "\<And>x. P x \<Longrightarrow> key x \<noteq> key r"
  shows "filter P (upsert key r rows) = filter P rows"
proof -
  have "\<not> P r" using assms by blast
  moreover have "filter P (map (\<lambda>x. if key x = key r then r else x) rows) = filter P rows"
    using assms \<open>\<not> P r\<close> by (induction rows) auto
  ultimately show ?thesis by (simp add: upsert_def)
qed


lemma set_upsert: "set (upsert key r rows) \<subseteq> insert r (set rows)"
  by (auto simp: upsert_def)

lemma upsert_absent:
  "filter (\<lambda>x. key x = key r) rows = [] \<Longrightarrow> upsert key r rows = rows @ [r]"
  by (simp add: upsert_def list_ex_iff filter_empty_conv)

lemma upsert_replace_last:
  assumes "filter (\<lambda>x. key x = key r) rows = []" and "key r' = key r"
  shows "upsert key r' (rows @ [r]) = rows @ [r']"
proof -
  have "map (\<lambda>x. if key x = key r then r' else x) rows = rows"
    using assms(1) by (induction rows) (auto split: if_splits)
  then show ?thesis using assms(2) by (simp add: upsert_def)
qed

lemma nonneg_upsert:
  assumes "0 \<le> quantity r" and "list_all (\<lambda>h. 0 \<le> quantity h) rows"
  shows "list_all (\<lambda>h. 0 \<le> quantity h) (upsert key r rows)"
  using assms set_upsert [of key r rows] by (auto simp: list_all_iff)

section \<open>Lemmas about \<open>Stock.save\<close>\<close>

lemma Stock_save_rejected:
  "current_price s \<le> 0 \<Longrightarrow>
     Stock_save up d s = (Inl InvalidStock, s\<lparr>symbol := up (symbol s)\<rparr>, d)"
  by (simp add: Stock_save_def Stock_clean_def Let_def)

lemma Stock_save_accepted:
  "0 < current_price s \<Longrightarrow>
     Stock_save up d s = (Inr (), s\<lparr>symbol := up (symbol s)\<rparr>,
                       d\<lparr>stocks := upsert stock_id (s\<lparr>symbol := up (symbol s)\<rparr>) (stocks d)\<rparr>)"
  by (simp add: Stock_save_def Stock_clean_def Let_def)

lemma get_stock_after_save:
  assumes "0 < current_price s"
  shows "get_stock (snd (snd (Stock_save up d s))) (stock_id s) = Some (s\<lparr>symbol := up (symbol s)\<rparr>)"
proof -
  have "find (\<lambda>x. stock_id x = stock_id (s\<lparr>symbol := up (symbol s)\<rparr>))
          (upsert stock_id (s\<lparr>symbol := up (symbol s)\<rparr>) (stocks d)) =
        Some (s\<lparr>symbol := up (symbol s)\<rparr>)"
    by (rule find_upsert)
  then show ?thesis
    by (simp add: Stock_save_accepted [OF assms] get_stock_def)
qed

lemma symbol_after_save: "symbol (fst (snd (Stock_save up d s))) = up (symbol s)"
  by (simp add: Stock_save_def Stock_clean_def Let_def)

section \<open>Lemmas about \<open>StockHolding\<close> and \<open>Transaction\<close>\<close>

lemma holdings_of_key: "holdings_of d pid sid = filter (\<lambda>h. holding_key h = (pid, sid)) (holdings d)"
  by (simp add: holdings_of_def holding_key_def)

lemma holdings_of_Portfolio_save [simp]: "holdings_of (Portfolio_save d p) pid sid = holdings_of d pid sid"
  by (simp add: holdings_of_def Portfolio_save_def)

lemma holdings_of_member:
  assumes "holdings_of d pid sid = h # hs"
  shows "h = \<lparr>portfolio = pid, stock = sid, quantity = quantity h\<rparr>"
proof -
  have "h \<in> set (holdings_of d pid sid)" using assms by simp
  then have "portfolio h = pid \<and> stock h = sid" by (simp add: holdings_of_def)
  then show ?thesis by (cases h) simp
qed


lemma StockHolding_save_negative:
  "quantity h < 0 \<Longrightarrow> StockHolding_save d h = (Inl InvalidHolding, d)"
  by (simp add: StockHolding_save_def StockHolding_clean_def)

lemma StockHolding_save_nonneg:
  "0 \<le> quantity h \<Longrightarrow>
     StockHolding_save d h = (Inr (), d\<lparr>holdings := upsert holding_key h (holdings d)\<rparr>)"
  by (simp add: StockHolding_save_def StockHolding_clean_def)

lemma StockHolding_save_nonneg_inv:
  "holdings_nonneg d \<Longrightarrow> holdings_nonneg (snd (StockHolding_save d h))"
  by (cases "quantity h < 0")
     (simp_all add: StockHolding_save_negative StockHolding_save_nonneg holdings_nonneg_def
        nonneg_upsert)

lemma get_or_create_absent:
  assumes "holdings_of d pid sid = []"
  shows "get_or_create d pid sid =
           (Inr \<lparr>portfolio = pid, stock = sid, quantity = 0\<rparr>,
            d\<lparr>holdings := holdings d @ [\<lparr>portfolio = pid, stock = sid, quantity = 0\<rparr>]\<rparr>)"
proof -
  have "filter (\<lambda>x. holding_key x = holding_key \<lparr>portfolio = pid, stock = sid, quantity = 0\<rparr>)
          (holdings d) = []"
    using assms by (simp add: holdings_of_key holding_key_def)
  then show ?thesis
    using assms by (simp add: get_or_create_def Let_def StockHolding_save_nonneg upsert_absent)
qed

lemma get_or_create_one:
  "holdings_of d pid sid = [h] \<Longrightarrow> get_or_create d pid sid = (Inr h, d)"
  by (simp add: get_or_create_def)

lemma get_or_create_many:
  "holdings_of d pid sid = h # h' # hs \<Longrightarrow>
     get_or_create d pid sid = (Inl MultipleObjectsReturned, d)"
  by (simp add: get_or_create_def)

lemma Transaction_objects_create_buy:
  "Transaction_objects_create d now (user self) (stock_id stk) ''BUY'' q (current_price stk) =
     (buy_transaction now self stk q,
      d\<lparr>transactions := transactions d @ [buy_transaction now self stk q]\<rparr>)"
  by (simp add: Transaction_objects_create_def Transaction_save_def Let_def buy_transaction_def)

section \<open>Lemmas about \<open>Portfolio.buy_stock\<close>\<close>

text \<open>
  After the affordability check the outcome depends on the rows of the (portfolio, stock)
  pair: none, one, or more than one.
\<close>

lemma buy_stock_refused:
  "\<not> can_buy_stock self stk q \<Longrightarrow> buy_stock d now self stk q = (Inl InsufficientFunds, self, d)"
  by (simp add: buy_stock_def)

lemma buy_stock_unfold:
  assumes "can_buy_stock self stk q"
  shows "buy_stock d now self stk q =
     (case get_or_create (Portfolio_save d (debited self stk q)) (portfolio_id self) (stock_id stk) of
        (Inl e, d2) \<Rightarrow> (Inl e, debited self stk q, d2)
      | (Inr holding, d2) \<Rightarrow>
          (case StockHolding_save d2 (holding\<lparr>quantity := quantity holding + q\<rparr>) of
             (Inl e, d3) \<Rightarrow> (Inl e, debited self stk q, d3)
           | (Inr u, d3) \<Rightarrow>
               (Inr (), debited self stk q,
                d3\<lparr>transactions := transactions d3 @ [buy_transaction now self stk q]\<rparr>)))"
  using assms
  by (simp add: buy_stock_def Let_def debited_def Transaction_objects_create_buy [unfolded buy_transaction_def]
      buy_transaction_def split: prod.splits sum.splits)

lemma buy_stock_new_holding:
  assumes "can_buy_stock self stk q" and "holdings_of d (portfolio_id self) (stock_id stk) = []"
  shows "buy_stock d now self stk q =
     (if q < 0
      then (Inl InvalidHolding, debited self stk q,
            d\<lparr>portfolios := upsert portfolio_id (debited self stk q) (portfolios d),
              holdings := holdings d @ [\<lparr>portfolio = portfolio_id self, stock = stock_id stk, quantity = 0\<rparr>]\<rparr>)
      else (Inr (), debited self stk q,
            d\<lparr>portfolios := upsert portfolio_id (debited self stk q) (portfolios d),
              holdings := holdings d @ [\<lparr>portfolio = portfolio_id self, stock = stock_id stk, quantity = q\<rparr>],
              transactions := transactions d @ [buy_transaction now self stk q]\<rparr>))"
proof -
  let ?h0 = "\<lparr>portfolio = portfolio_id self, stock = stock_id stk, quantity = 0\<rparr>"
  let ?dP = "Portfolio_save d (debited self stk q)"
  have g: "get_or_create ?dP (portfolio_id self) (stock_id stk) =
             (Inr ?h0, ?dP\<lparr>holdings := holdings ?dP @ [?h0]\<rparr>)"
    using assms(2) by (intro get_or_create_absent) simp
  have none: "filter (\<lambda>x. holding_key x = holding_key ?h0) (holdings d) = []"
    using assms(2) by (simp add: holdings_of_key holding_key_def)
  have u: "upsert holding_key (?h0\<lparr>quantity := q\<rparr>) (holdings d @ [?h0]) = holdings d @ [?h0\<lparr>quantity := q\<rparr>]"
    using none by (intro upsert_replace_last) (simp_all add: holding_key_def)
  show ?thesis
  proof (cases "q < 0")
    case True
    then show ?thesis
      unfolding buy_stock_unfold [OF assms(1)] g
      by (simp add: StockHolding_save_negative Portfolio_save_def)
  next
    case False
    then show ?thesis
      using u unfolding buy_stock_unfold [OF assms(1)] g
      by (simp add: StockHolding_save_nonneg Portfolio_save_def)
  qed
qed

lemma buy_stock_existing_holding:
  assumes "can_buy_stock self stk q" and "holdings_of d (portfolio_id self) (stock_id stk) = [h]"
  shows "buy_stock d now self stk q =
     (if quantity h + q < 0
      then (Inl InvalidHolding, debited self stk q,
            d\<lparr>portfolios := upsert portfolio_id (debited self stk q) (portfolios d)\<rparr>)
      else (Inr (), debited self stk q,
            d\<lparr>portfolios := upsert portfolio_id (debited self stk q) (portfolios d),
              holdings := upsert holding_key (h\<lparr>quantity := quantity h + q\<rparr>) (holdings d),
              transactions := transactions d @ [buy_transaction now self stk q]\<rparr>))"
proof -
  let ?dP = "Portfolio_save d (debited self stk q)"
  have g: "get_or_create ?dP (portfolio_id self) (stock_id stk) = (Inr h, ?dP)"
    using assms(2) by (intro get_or_create_one) simp
  show ?thesis
  proof (cases "quantity h + q < 0")
    case True
    then show ?thesis
      unfolding buy_stock_unfold [OF assms(1)] g
      by (simp add: StockHolding_save_negative Portfolio_save_def)
  next
    case False
    then show ?thesis
      unfolding buy_stock_unfold [OF assms(1)] g
      by (simp add: StockHolding_save_nonneg Portfolio_save_def)
  qed
qed

lemma buy_stock_many_holdings:
  assumes "can_buy_stock self stk q" and "holdings_of d (portfolio_id self) (stock_id stk) = h # h' # hs"
  shows "buy_stock d now self stk q =
     (Inl MultipleObjectsReturned, debited self stk q,
      d\<lparr>portfolios := upsert portfolio_id (debited self stk q) (portfolios d)\<rparr>)"
proof -
  let ?dP = "Portfolio_save d (debited self stk q)"
  have g: "get_or_create ?dP (portfolio_id self) (stock_id stk) = (Inl MultipleObjectsReturned, ?dP)"
    using assms(2) by (intro get_or_create_many [of _ _ _ h h' hs]) simp
  show ?thesis
    unfolding buy_stock_unfold [OF assms(1)] g
    by (simp add: Portfolio_save_def)
qed

text \<open>What a successful buy has done, and when a buy succeeds.\<close>

lemma buy_stock_success:
  assumes "buy_stock d now self stk q = (Inr (), s1, d1)"
  shows "can_buy_stock self stk q"
    and "s1 = debited self stk q"
    and "d1 = d\<lparr>portfolios := upsert portfolio_id (debited self stk q) (portfolios d),
               holdings := upsert holding_key
                 \<lparr>portfolio = portfolio_id self, stock = stock_id stk,
                  quantity = held_quantity d (portfolio_id self) (stock_id stk) + q\<rparr> (holdings d),
               transactions := transactions d @ [buy_transaction now self stk q]\<rparr>"
    and "length (holdings_of d (portfolio_id self) (stock_id stk)) \<le> 1"
    and "0 \<le> held_quantity d (portfolio_id self) (stock_id stk) + q"
proof -
  let ?pid = "portfolio_id self" and ?sid = "stock_id stk"
  show c: "can_buy_stock self stk q"
    using assms buy_stock_refused [of self stk q d now] by auto
  have "s1 = debited self stk q \<and>
        d1 = d\<lparr>portfolios := upsert portfolio_id (debited self stk q) (portfolios d),
               holdings := upsert holding_key
                 \<lparr>portfolio = ?pid, stock = ?sid, quantity = held_quantity d ?pid ?sid + q\<rparr> (holdings d),
               transactions := transactions d @ [buy_transaction now self stk q]\<rparr> \<and>
        length (holdings_of d ?pid ?sid) \<le> 1 \<and> 0 \<le> held_quantity d ?pid ?sid + q"
  proof (cases "holdings_of d ?pid ?sid")
    case Nil
    have none: "filter (\<lambda>x. holding_key x = holding_key \<lparr>portfolio = ?pid, stock = ?sid, quantity = q\<rparr>)
                  (holdings d) = []"
      using Nil by (simp add: holdings_of_key holding_key_def)
    from Nil have h0: "held_quantity d ?pid ?sid = 0" by (simp add: held_quantity_def)
    from assms show ?thesis
      unfolding buy_stock_new_holding [OF c Nil] h0
      by (auto simp: upsert_absent [OF none] Nil split: if_splits)
  next
    case (Cons h hs)
    show ?thesis
    proof (cases hs)
      case Nil
      with Cons have one: "holdings_of d ?pid ?sid = [h]" by simp
      have hq: "held_quantity d ?pid ?sid = quantity h" by (simp add: held_quantity_def one)
      have "h = \<lparr>portfolio = ?pid, stock = ?sid, quantity = quantity h\<rparr>"
        using one by (rule holdings_of_member)
      then have hh: "h\<lparr>quantity := quantity h + q\<rparr> =
                 \<lparr>portfolio = ?pid, stock = ?sid, quantity = quantity h + q\<rparr>"
        by (cases h) simp
      from assms show ?thesis
        unfolding buy_stock_existing_holding [OF c one] hq hh
        by (auto simp: one split: if_splits)
    next
      case (Cons h' hs')
      with \<open>holdings_of d ?pid ?sid = h # hs\<close>
      have "holdings_of d ?pid ?sid = h # h' # hs'" by simp
      from buy_stock_many_holdings [OF c this, of now] assms show ?thesis by simp
    qed
  qed
  then show "s1 = debited self stk q"
    and "d1 = d\<lparr>portfolios := upsert portfolio_id (debited self stk q) (portfolios d),
               holdings := upsert holding_key
                 \<lparr>portfolio = ?pid, stock = ?sid, quantity = held_quantity d ?pid ?sid + q\<rparr> (holdings d),
               transactions := transactions d @ [buy_transaction now self stk q]\<rparr>"
    and "length (holdings_of d ?pid ?sid) \<le> 1" and "0 \<le> held_quantity d ?pid ?sid + q"
    by simp_all
qed


lemma get_portfolio_after_buy:
  "get_portfolio (d\<lparr>portfolios := upsert portfolio_id (debited self stk q) (portfolios d),
                    holdings := hs, transactions := ts\<rparr>) (portfolio_id self) =
     Some (debited self stk q)"
proof -
  have "find (\<lambda>x. portfolio_id x = portfolio_id (debited self stk q))
          (upsert portfolio_id (debited self stk q) (portfolios d)) = Some (debited self stk q)"
    by (rule find_upsert)
  then show ?thesis by (simp add: get_portfolio_def debited_def)
qed

lemma buy_stock_nonneg_inv:
  assumes "holdings_nonneg d"
  shows "holdings_nonneg (snd (snd (buy_stock d now self stk q)))"
proof (cases "can_buy_stock self stk q")
  case False
  then show ?thesis using assms by (simp add: buy_stock_refused)
next
  case c: True
  show ?thesis
  proof (cases "holdings_of d (portfolio_id self) (stock_id stk)")
    case Nil
    show ?thesis
      unfolding buy_stock_new_holding [OF c Nil]
      using assms by (simp add: holdings_nonneg_def)
  next
    case (Cons h hs)
    show ?thesis
    proof (cases hs)
      case Nil
      with Cons have one: "holdings_of d (portfolio_id self) (stock_id stk) = [h]" by simp
      show ?thesis
        unfolding buy_stock_existing_holding [OF c one]
        using assms by (simp add: holdings_nonneg_def nonneg_upsert)
    next
      case (Cons h' hs')
      with \<open>holdings_of d (portfolio_id self) (stock_id stk) = h # hs\<close>
      have "holdings_of d (portfolio_id self) (stock_id stk) = h # h' # hs'" by simp
      from buy_stock_many_holdings [OF c this, of now] assms show ?thesis
        by (simp add: holdings_nonneg_def)
    qed
  qed
qed

text \<open>The scenario of the tests, and the same buy on the larger database.\<close>

lemma test_buy_two:
  "buy_stock test_db 5 testuser_portfolio aapl 2 =
     (Inr (), testuser_portfolio\<lparr>balance := 700\<rparr>,
      test_db\<lparr>portfolios := [testuser_portfolio\<lparr>balance := 700\<rparr>],
              holdings := [\<lparr>portfolio = 1, stock = 1, quantity = 2\<rparr>],
              transactions := [\<lparr>t_user = 1, t_stock = 1, transaction_type = ''BUY'',
                                t_quantity = 2, price = 150, timestamp = 5,
                                total_amount = Some 300\<rparr>]\<rparr>)"
proof -
  have c: "can_buy_stock testuser_portfolio aapl 2"
    by (simp add: can_buy_stock_def testuser_portfolio_def aapl_def)
  have n: "holdings_of test_db (portfolio_id testuser_portfolio) (stock_id aapl) = []"
    by (simp add: holdings_of_def test_db_def)
  show ?thesis
    unfolding buy_stock_new_holding [OF c n]
    by (simp add: debited_def buy_transaction_def upsert_def test_db_def testuser_portfolio_def
        aapl_def)
qed

lemma busy_buy_two:
  "buy_stock busy_db 5 testuser_portfolio aapl 2 =
     (Inr (), testuser_portfolio\<lparr>balance := 700\<rparr>,
      busy_db\<lparr>portfolios := [testuser_portfolio\<lparr>balance := 700\<rparr>, other_portfolio],
              holdings := [\<lparr>portfolio = 2, stock = 1, quantity = 4\<rparr>,
                           \<lparr>portfolio = 1, stock = 1, quantity = 3\<rparr>,
                           \<lparr>portfolio = 1, stock = 2, quantity = 3\<rparr>],
              transactions := transactions busy_db @
                 [\<lparr>t_user = 1, t_stock = 1, transaction_type = ''BUY'',
                   t_quantity = 2, price = 150, timestamp = 5, total_amount = Some 300\<rparr>]\<rparr>)"
proof -
  have c: "can_buy_stock testuser_portfolio aapl 2"
    by (simp add: can_buy_stock_def testuser_portfolio_def aapl_def)
  have n: "holdings_of busy_db (portfolio_id testuser_portfolio) (stock_id aapl) =
             [\<lparr>portfolio = 1, stock = 1, quantity = 1\<rparr>]"
    by (simp add: holdings_of_def busy_db_def testuser_portfolio_def aapl_def)
  show ?thesis
    unfolding buy_stock_existing_holding [OF c n]
    by (simp add: debited_def buy_transaction_def upsert_def busy_db_def testuser_portfolio_def
        other_portfolio_def aapl_def holding_key_def)
qed




section \<open>Lemmas about valuation and snapshots\<close>

lemma sum_values_eq:
  "sum_values d acc hs =
     (if list_all (\<lambda>h. get_stock d (stock h) \<noteq> None) hs
      then Inr (acc + sum_list (map (holding_value d) hs))
      else Inl DoesNotExist)"
  by (induction hs arbitrary: acc) (auto simp: holding_value_def add.assoc split: option.splits)

lemma calculate_total_value_eq:
  "calculate_total_value d self =
     (if \<forall>h\<in>set_mset (filter_mset (\<lambda>h. portfolio h = portfolio_id self) (mset (holdings d))).
           get_stock d (stock h) \<noteq> None
      then Inr (balance self +
             sum_mset (image_mset (holding_value d)
               (filter_mset (\<lambda>h. portfolio h = portfolio_id self) (mset (holdings d)))))
      else Inl DoesNotExist)"
proof -
  let ?hs = "holdings_all d self"
  have m: "mset ?hs = filter_mset (\<lambda>h. portfolio h = portfolio_id self) (mset (holdings d))"
    by (simp add: holdings_all_def)
  have "sum_list (map (holding_value d) ?hs) = sum_mset (image_mset (holding_value d) (mset ?hs))"
    by (metis mset_map sum_mset_sum_list)
  moreover have "list_all (\<lambda>h. get_stock d (stock h) \<noteq> None) ?hs \<longleftrightarrow>
                 (\<forall>h\<in>set_mset (mset ?hs). get_stock d (stock h) \<noteq> None)"
    by (simp add: list_all_iff)
  ultimately show ?thesis
    unfolding m [symmetric] by (simp add: calculate_total_value_def sum_values_eq)
qed

lemma holding_value_cong:
  "stocks d' = stocks d \<Longrightarrow> holding_value d' = holding_value d"
  by (rule ext) (simp add: holding_value_def get_stock_def)

lemma calculate_total_value_perm:
  assumes "mset (holdings d') = mset (holdings d)" and "stocks d' = stocks d"
  shows "calculate_total_value d' self = calculate_total_value d self"
  unfolding calculate_total_value_eq assms(1) holding_value_cong [OF assms(2)]
  by (simp add: get_stock_def assms(2))

lemma calculate_total_value_sum:
  assumes "\<And>h. h \<in> set (holdings_all d self) \<Longrightarrow> get_stock d (stock h) = Some (stock_of h)"
  shows "calculate_total_value d self =
           Inr (balance self +
                (\<Sum>h\<leftarrow>holdings_all d self. current_price (stock_of h) * of_int (quantity h)))"
proof -
  have a: "list_all (\<lambda>h. get_stock d (stock h) \<noteq> None) (holdings_all d self)"
    using assms by (simp add: list_all_iff)
  have "map (holding_value d) (holdings_all d self) =
        map (\<lambda>h. current_price (stock_of h) * of_int (quantity h)) (holdings_all d self)"
    using assms by (intro map_cong) (simp_all add: holding_value_def)
  then have "sum_list (map (holding_value d) (holdings_all d self)) =
        (\<Sum>h\<leftarrow>holdings_all d self. current_price (stock_of h) * of_int (quantity h))"
    by (rule arg_cong)
  with a show ?thesis
    by (simp add: calculate_total_value_def sum_values_eq)
qed

lemma create_daily_snapshot_no_holdings:
  assumes "holdings_all d self = []"
  shows "create_daily_snapshot d now self =
     (Inr \<lparr>s_portfolio = portfolio_id self, total_value = balance self,
            cash_balance = balance self, s_timestamp = now\<rparr>,
      d\<lparr>snapshots := snapshots d @
           [\<lparr>s_portfolio = portfolio_id self, total_value = balance self,
             cash_balance = balance self, s_timestamp = now\<rparr>]\<rparr>)"
  using assms by (simp add: create_daily_snapshot_def calculate_total_value_def Let_def)

lemma create_daily_snapshot_appends:
  "(snd (create_daily_snapshot d now self))\<lparr>snapshots := snapshots d\<rparr> = d"
  "take (length (snapshots d)) (snapshots (snd (create_daily_snapshot d now self))) = snapshots d"
  by (simp_all add: create_daily_snapshot_def Let_def split: sum.splits)

section \<open>Lemmas about the buy action and sequences of writes\<close>

lemma buy_action_body_int_raises:
  "buy_action_body up d now u (Inl e) smb = (Inl e, None, d)"
  by (simp add: buy_action_body_def)

lemma view_int_raises:
  "view_buy_stock up d now u (Inl e) smb =
     (if e = ValueError \<or> e = TypeError
      then Inr \<lparr>status_code = 400,
                 data = [(''status'', ''error''), (''message'', ''Invalid quantity provided'')]\<rparr>
      else Inl e,
      None, d)"
  by (simp add: view_buy_stock_def buy_action_body_int_raises)

lemma buy_action_body_called:
  assumes "fst (snd (buy_action_body up d now u int_quantity smb)) = Some q"
  shows "int_quantity = Inr q \<and>
         (\<exists>pf stk symbol_text.
            smb = Some symbol_text \<and> get_object_or_404 d (up symbol_text) = Inr stk \<and>
            get_queryset_first d u = Some pf \<and> can_buy_stock pf stk q \<and>
            snd (snd (buy_action_body up d now u int_quantity smb)) =
              snd (snd (buy_stock d now pf stk q)))"
  using assms
  by (auto simp: buy_action_body_def
      split: sum.splits option.splits if_splits prod.splits)

lemma view_fst_snd:
  "fst (snd (view_buy_stock up d now u int_quantity smb)) =
     fst (snd (buy_action_body up d now u int_quantity smb))"
  "snd (snd (view_buy_stock up d now u int_quantity smb)) =
     snd (snd (buy_action_body up d now u int_quantity smb))"
  by (auto simp: view_buy_stock_def split: prod.splits sum.splits)

lemma buy_action_body_not_called:
  assumes "fst (snd (buy_action_body up d now u int_quantity smb)) = None"
  shows "snd (snd (buy_action_body up d now u int_quantity smb)) = d"
  using assms
  by (auto simp: buy_action_body_def
      split: sum.splits option.splits if_splits prod.splits)

lemma view_nonneg_inv:
  assumes "holdings_nonneg d"
  shows "holdings_nonneg (snd (snd (view_buy_stock up d now u int_quantity smb)))"
proof (cases "fst (snd (buy_action_body up d now u int_quantity smb))")
  case None
  then show ?thesis using assms by (simp add: view_fst_snd buy_action_body_not_called)
next
  case (Some q)
  from buy_action_body_called [OF this] obtain pf stk where
    "snd (snd (buy_action_body up d now u int_quantity smb)) = snd (snd (buy_stock d now pf stk q))"
    by blast
  then show ?thesis using assms by (simp add: view_fst_snd buy_stock_nonneg_inv)
qed

lemma step_nonneg_inv: "holdings_nonneg d \<Longrightarrow> holdings_nonneg (step up d x)"
proof (cases x)
  case (OpStockSave s)
  assume "holdings_nonneg d"
  then show ?thesis
    by (simp add: OpStockSave Stock_save_def Stock_clean_def Let_def holdings_nonneg_def)
next
  case (OpPortfolioSave p)
  assume "holdings_nonneg d"
  then show ?thesis by (simp add: OpPortfolioSave Portfolio_save_def holdings_nonneg_def)
next
  case (OpHoldingSave h)
  assume "holdings_nonneg d"
  then show ?thesis by (simp add: OpHoldingSave StockHolding_save_nonneg_inv)
next
  case (OpBuy now self stk q)
  assume "holdings_nonneg d"
  then show ?thesis by (simp add: OpBuy buy_stock_nonneg_inv)
next
  case (OpSnapshot now self)
  assume "holdings_nonneg d"
  then show ?thesis
    by (simp add: OpSnapshot create_daily_snapshot_def Let_def holdings_nonneg_def
        split: sum.splits)
next
  case (OpViewBuy now u int_quantity smb)
  assume "holdings_nonneg d"
  then show ?thesis by (simp add: OpViewBuy view_nonneg_inv)
qed

lemma run_nonneg_inv: "holdings_nonneg d \<Longrightarrow> holdings_nonneg (run up d xs)"
  unfolding run_def by (induction xs arbitrary: d) (simp_all add: step_nonneg_inv)

section \<open>The claims\<close>



text \<open>
  C2. When the balance is less than \<open>current_price \<times> quantity\<close>, \<open>buy_stock\<close> raises
  the insufficient-funds error and changes nothing: the instance and the whole database
  (balance, holdings, transactions) are as before.
\<close>

theorem buy_insufficient_funds:
  "balance self < current_price stk * of_int q \<Longrightarrow>
     buy_stock d now self stk q = (Inl InsufficientFunds, self, d)"
  by (simp add: buy_stock_def can_buy_stock_def)

theorem buy_insufficient_funds_witness:
  "balance (testuser_portfolio\<lparr>balance := 700\<rparr>) < current_price aapl * of_int 10 \<and>
   buy_stock test_db 0 (testuser_portfolio\<lparr>balance := 700\<rparr>) aapl 10 =
     (Inl InsufficientFunds, testuser_portfolio\<lparr>balance := 700\<rparr>, test_db)"
proof -
  have h: "balance (testuser_portfolio\<lparr>balance := 700\<rparr>) < current_price aapl * of_int 10"
    by (simp add: aapl_def)
  from h buy_insufficient_funds [OF h] show ?thesis by simp
qed

text \<open>
  C3. The claim is that a failing buy leaves nothing partially written. The code saves
  the debited balance before the holding is validated: buying \<open>-1\<close> shares with no
  holding passes the affordability check, credits and saves the balance, creates the
  holding row with quantity 0, and only then raises; no transaction is recorded. The
  buy action of the view passes the same request on to \<open>buy_stock\<close> (the request
  \<open>{'symbol': 'aapl', 'quantity': '-1'}\<close>, for which \<open>int\<close> returns \<open>-1\<close>).
\<close>

theorem buy_negative_quantity_partial_write:
  "buy_stock test_db 5 testuser_portfolio aapl (- 1) =
     (Inl InvalidHolding, testuser_portfolio\<lparr>balance := 1150\<rparr>,
      test_db\<lparr>portfolios := [testuser_portfolio\<lparr>balance := 1150\<rparr>],
              holdings := [\<lparr>portfolio = 1, stock = 1, quantity = 0\<rparr>]\<rparr>) \<and>
   view_buy_stock ascii_upper test_db 5 1 (Inr (- 1)) (Some ''aapl'') =
     (Inl InvalidHolding, Some (- 1),
      test_db\<lparr>portfolios := [testuser_portfolio\<lparr>balance := 1150\<rparr>],
              holdings := [\<lparr>portfolio = 1, stock = 1, quantity = 0\<rparr>]\<rparr>)"
  by code_simp

text \<open>
  C4, as the code has it. When \<open>int\<close> raises on the quantity, \<open>buy_stock\<close> is not called
  and the database is unchanged; for \<open>ValueError\<close> and \<open>TypeError\<close>, the exceptions of a
  quantity that is no number, the answer has status 400 and the message
  \<open>Invalid quantity provided\<close>, and any other exception leaves the action. When the
  action calls \<open>buy_stock\<close>, the quantity it passes is the integer \<open>int\<close> returned, the
  stock is the one whose symbol is the upper-cased symbol of the request, and
  \<open>can_buy_stock\<close> has passed for them on the user's portfolio.
\<close>

theorem view_quantity_validation:
  "view_buy_stock up d now u (Inl e) smb =
     (if e = ValueError \<or> e = TypeError
      then Inr \<lparr>status_code = 400,
                 data = [(''status'', ''error''), (''message'', ''Invalid quantity provided'')]\<rparr>
      else Inl e,
      None, d) \<and>
   (fst (snd (view_buy_stock up d now u int_quantity smb)) = Some q \<longrightarrow>
      int_quantity = Inr q \<and>
      (\<exists>pf stk symbol_text.
         smb = Some symbol_text \<and> get_object_or_404 d (up symbol_text) = Inr stk \<and>
         get_queryset_first d u = Some pf \<and> can_buy_stock pf stk q \<and>
         snd (snd (view_buy_stock up d now u int_quantity smb)) =
           snd (snd (buy_stock d now pf stk q))))"
  using view_int_raises [of up d now u e smb]
    buy_action_body_called [of up d now u int_quantity smb q]
  by (simp add: view_fst_snd)

theorem view_quantity_validation_witness:
  "view_buy_stock ascii_upper test_db 5 1 (Inl ValueError) (Some ''aapl'') =
     (Inr \<lparr>status_code = 400,
            data = [(''status'', ''error''), (''message'', ''Invalid quantity provided'')]\<rparr>,
      None, test_db) \<and>
   view_buy_stock ascii_upper test_db 5 1 (Inl TypeError) (Some ''aapl'') =
     (Inr \<lparr>status_code = 400,
            data = [(''status'', ''error''), (''message'', ''Invalid quantity provided'')]\<rparr>,
      None, test_db) \<and>
   view_buy_stock ascii_upper test_db 5 1 (Inl OverflowError) (Some ''aapl'') =
     (Inl OverflowError, None, test_db) \<and>
   fst (snd (view_buy_stock ascii_upper test_db 5 1 (Inr 2) (Some ''aapl''))) = Some 2 \<and>
   get_object_or_404 test_db (ascii_upper ''aapl'') = Inr aapl \<and>
   can_buy_stock testuser_portfolio aapl 2"
proof -
  have c: "fst (snd (view_buy_stock ascii_upper test_db 5 1 (Inr 2) (Some ''aapl''))) = Some 2"
    by code_simp
  have g: "get_object_or_404 test_db (ascii_upper ''aapl'') = Inr aapl"
    by code_simp
  have p: "get_queryset_first test_db 1 = Some testuser_portfolio"
    by code_simp
  from view_quantity_validation
         [of ascii_upper test_db 5 1 ValueError "Some ''aapl''" "Inr 2" 2]
       view_quantity_validation
         [of ascii_upper test_db 5 1 TypeError "Some ''aapl''" "Inr 2" 2]
       view_quantity_validation
         [of ascii_upper test_db 5 1 OverflowError "Some ''aapl''" "Inr 2" 2]
       c g p
  show ?thesis by auto
qed

text \<open>
  C4, as stated, fails: the quantity \<open>0\<close> is not rejected. For the request
  \<open>{'symbol': 'aapl', 'quantity': '0'}\<close>, for which \<open>int\<close> returns 0, the action calls
  \<open>buy_stock\<close> and answers with a success; a holding of quantity 0 and a transaction of
  quantity 0 are stored.
\<close>

theorem view_accepts_zero_quantity:
  "view_buy_stock ascii_upper test_db 5 1 (Inr 0) (Some ''aapl'') =
     (Inr \<lparr>status_code = 200,
            data = [(''status'', ''success''),
                    (''message'', ''Successfully purchased 0 shares of aapl'')]\<rparr>,
      Some 0,
      test_db\<lparr>holdings := [\<lparr>portfolio = 1, stock = 1, quantity = 0\<rparr>],
              transactions := [\<lparr>t_user = 1, t_stock = 1, transaction_type = ''BUY'',
                                t_quantity = 0, price = 150, timestamp = 5,
                                total_amount = Some 0\<rparr>]\<rparr>)"
  by code_simp

text \<open>
  C5. When every holding of the portfolio refers to a stock row, the total value is the
  cash balance plus the sum over the portfolio's holdings of \<open>quantity \<times> current_price\<close>
  of the holding's stock. The result does not depend on the order of the holdings: two
  databases with the same stocks and the same holdings in any order give the same
  result. \<open>calculate_total_value\<close> only reads: it returns a value and no database.
\<close>

theorem total_value_additive:
  "((\<forall>h\<in>set (holdings_all d self). get_stock d (stock h) = Some (stock_of h)) \<longrightarrow>
      calculate_total_value d self =
        Inr (balance self +
             (\<Sum>h\<leftarrow>holdings_all d self. current_price (stock_of h) * of_int (quantity h)))) \<and>
   (mset (holdings d') = mset (holdings d) \<and> stocks d' = stocks d \<longrightarrow>
      calculate_total_value d' self = calculate_total_value d self)"
  using calculate_total_value_sum [of d self stock_of] calculate_total_value_perm [of d' d self]
  by blast

theorem total_value_additive_witness:
  "calculate_total_value busy_db testuser_portfolio = Inr 1450 \<and>
   calculate_total_value (busy_db\<lparr>holdings := rev (holdings busy_db)\<rparr>) testuser_portfolio = Inr 1450"
proof -
  let ?sk = "\<lambda>h. if stock h = 1 then aapl else googl"
  have hs: "holdings_all busy_db testuser_portfolio =
              [\<lparr>portfolio = 1, stock = 1, quantity = 1\<rparr>, \<lparr>portfolio = 1, stock = 2, quantity = 3\<rparr>]"
    by (simp add: holdings_all_def busy_db_def testuser_portfolio_def)
  have g: "\<forall>h\<in>set (holdings_all busy_db testuser_portfolio). get_stock busy_db (stock h) = Some (?sk h)"
    unfolding hs by (simp add: get_stock_def busy_db_def aapl_def googl_def)
  have p: "mset (holdings (busy_db\<lparr>holdings := rev (holdings busy_db)\<rparr>)) = mset (holdings busy_db) \<and>
           stocks (busy_db\<lparr>holdings := rev (holdings busy_db)\<rparr>) = stocks busy_db"
    by simp
  from total_value_additive [of busy_db testuser_portfolio ?sk "busy_db\<lparr>holdings := rev (holdings busy_db)\<rparr>"] g p
  have "calculate_total_value busy_db testuser_portfolio =
          Inr (balance testuser_portfolio +
             (\<Sum>h\<leftarrow>holdings_all busy_db testuser_portfolio. current_price (?sk h) * of_int (quantity h)))"
    and "calculate_total_value (busy_db\<lparr>holdings := rev (holdings busy_db)\<rparr>) testuser_portfolio =
         calculate_total_value busy_db testuser_portfolio"
    by blast+
  then show ?thesis
    unfolding hs by (simp add: testuser_portfolio_def aapl_def googl_def)
qed

text \<open>
  C6. \<open>StockHolding.save\<close> rejects a negative quantity with the invalid-holding error
  and leaves the database as it is; every operation keeps all stored quantities
  non-negative when they were so before; hence in every database reached from the empty
  one by any sequence of operations, every holding has a quantity of at least 0.
\<close>

theorem holdings_never_negative:
  "(quantity h < 0 \<longrightarrow> StockHolding_save d h = (Inl InvalidHolding, d)) \<and>
   (holdings_nonneg d \<longrightarrow> holdings_nonneg (step up d x)) \<and>
   (\<forall>k\<in>set (holdings (run up empty_db xs)). 0 \<le> quantity k)"
proof -
  have "holdings_nonneg empty_db" by (simp add: holdings_nonneg_def empty_db_def)
  then have "holdings_nonneg (run up empty_db xs)" by (rule run_nonneg_inv)
  then have "\<forall>k\<in>set (holdings (run up empty_db xs)). 0 \<le> quantity k"
    by (simp add: holdings_nonneg_def list_all_iff)
  then show ?thesis
    using StockHolding_save_negative [of h d] step_nonneg_inv [of d up x] by blast
qed

theorem holdings_never_negative_witness:
  "StockHolding_save test_db \<lparr>portfolio = 1, stock = 1, quantity = - 5\<rparr> =
     (Inl InvalidHolding, test_db) \<and>
   holdings_nonneg (step ascii_upper test_db (OpBuy 5 testuser_portfolio aapl (- 1))) \<and>
   holdings_nonneg
     (run ascii_upper empty_db
        [OpStockSave aapl, OpPortfolioSave testuser_portfolio,
         OpBuy 5 testuser_portfolio aapl 2,
         OpBuy 6 (testuser_portfolio\<lparr>balance := 700\<rparr>) aapl (- 3),
         OpViewBuy 7 1 (Inr (- 4)) (Some ''aapl''),
         OpHoldingSave \<lparr>portfolio = 1, stock = 1, quantity = - 5\<rparr>]) \<and>
   map quantity
     (holdings
        (run ascii_upper empty_db
           [OpStockSave aapl, OpPortfolioSave testuser_portfolio,
            OpBuy 5 testuser_portfolio aapl 2,
            OpBuy 6 (testuser_portfolio\<lparr>balance := 700\<rparr>) aapl (- 3),
            OpViewBuy 7 1 (Inr (- 4)) (Some ''aapl''),
            OpHoldingSave \<lparr>portfolio = 1, stock = 1, quantity = - 5\<rparr>])) = [2]"
proof -
  have n: "holdings_nonneg test_db" by (simp add: holdings_nonneg_def test_db_def)
  have e: "map quantity
     (holdings
        (run ascii_upper empty_db
           [OpStockSave aapl, OpPortfolioSave testuser_portfolio,
            OpBuy 5 testuser_portfolio aapl 2,
            OpBuy 6 (testuser_portfolio\<lparr>balance := 700\<rparr>) aapl (- 3),
            OpViewBuy 7 1 (Inr (- 4)) (Some ''aapl''),
            OpHoldingSave \<lparr>portfolio = 1, stock = 1, quantity = - 5\<rparr>])) = [2]"
    by code_simp
  from holdings_never_negative
         [of "\<lparr>portfolio = 1, stock = 1, quantity = - 5\<rparr>" test_db ascii_upper
             "OpBuy 5 testuser_portfolio aapl (- 1)"
             "[OpStockSave aapl, OpPortfolioSave testuser_portfolio,
               OpBuy 5 testuser_portfolio aapl 2,
               OpBuy 6 (testuser_portfolio\<lparr>balance := 700\<rparr>) aapl (- 3),
               OpViewBuy 7 1 (Inr (- 4)) (Some ''aapl''),
            OpHoldingSave \<lparr>portfolio = 1, stock = 1, quantity = - 5\<rparr>]"] n e
  show ?thesis
    by (simp add: holdings_nonneg_def list_all_iff)
qed

text \<open>
  C7. Every Stock write stores the upper-cased symbol: whatever \<open>str.upper\<close> does to
  the given symbol, \<open>save\<close> leaves that string on the instance, and the row it stores
  (also through \<open>objects.create\<close>) carries it, for any symbol string.
\<close>

theorem stock_symbol_upper_cased:
  "symbol (fst (snd (Stock_save up d s))) = up (symbol s) \<and>
   (0 < current_price s \<longrightarrow>
      map_option symbol (get_stock (snd (snd (Stock_save up d s))) (stock_id s)) =
        Some (up (symbol s))) \<and>
   (0 < p \<longrightarrow>
      map_option symbol (get_stock (snd (snd (Stock_objects_create up d now smb nm p)))
                           (fresh_id stock_id (stocks d))) = Some (up smb))"
proof (intro conjI impI)
  show "symbol (fst (snd (Stock_save up d s))) = up (symbol s)"
    by (rule symbol_after_save)
next
  assume "0 < current_price s"
  then show "map_option symbol (get_stock (snd (snd (Stock_save up d s))) (stock_id s)) =
               Some (up (symbol s))"
    by (simp add: get_stock_after_save)
next
  let ?s = "\<lparr>stock_id = fresh_id stock_id (stocks d), symbol = smb, name = nm,
             current_price = p, last_updated = now\<rparr>"
  assume "0 < p"
  then have "0 < current_price ?s" by simp
  from get_stock_after_save [OF this, of up d]
  show "map_option symbol (get_stock (snd (snd (Stock_objects_create up d now smb nm p)))
                           (fresh_id stock_id (stocks d))) = Some (up smb)"
    by (simp add: Stock_objects_create_def)
qed

theorem stock_symbol_upper_cased_witness:
  "map symbol
     (stocks (snd (snd (Stock_objects_create ascii_upper empty_db 0 ''googl'' ''Google'' 100)))) =
     [''GOOGL''] \<and>
   map_option symbol
     (get_stock (snd (snd (Stock_objects_create ascii_upper empty_db 0 ''googl'' ''Google'' 100)))
        (fresh_id stock_id (stocks empty_db))) = Some ''GOOGL'' \<and>
   symbol (fst (snd (Stock_save ascii_upper test_db (aapl\<lparr>symbol := ''Brk.b''\<rparr>)))) = ''BRK.B'' \<and>
   map_option symbol
     (get_stock (snd (snd (Stock_save ascii_upper test_db (aapl\<lparr>symbol := ''Brk.b''\<rparr>)))) 1) =
     Some ''BRK.B''"
proof -
  have u: "ascii_upper ''googl'' = ''GOOGL''" "ascii_upper ''Brk.b'' = ''BRK.B''"
    by code_simp+
  have m: "map symbol
     (stocks (snd (snd (Stock_objects_create ascii_upper empty_db 0 ''googl'' ''Google'' 100)))) =
     [''GOOGL'']"
    by code_simp
  have a: "0 < current_price (aapl\<lparr>symbol := ''Brk.b''\<rparr>)" "stock_id (aapl\<lparr>symbol := ''Brk.b''\<rparr>) = 1"
    by (simp_all add: aapl_def)
  from stock_symbol_upper_cased
         [where up = ascii_upper and d = empty_db and p = 100 and now = 0 and smb = "''googl''"
            and nm = "''Google''"]
       stock_symbol_upper_cased
         [where up = ascii_upper and d = test_db and s = "aapl\<lparr>symbol := ''Brk.b''\<rparr>"]
       u m a
  show ?thesis by simp
qed

text \<open>
  C8. A Stock write with \<open>current_price \<le> 0\<close> is rejected with the invalid-stock error
  and stores nothing (the database is unchanged); a write with a positive price is
  accepted and stored.
\<close>

theorem stock_price_validation:
  "(current_price s \<le> 0 \<longrightarrow>
      fst (Stock_save up d s) = Inl InvalidStock \<and> snd (snd (Stock_save up d s)) = d) \<and>
   (p \<le> 0 \<longrightarrow>
      fst (Stock_objects_create up d now smb nm p) = Inl InvalidStock \<and>
      snd (snd (Stock_objects_create up d now smb nm p)) = d) \<and>
   (0 < current_price s \<longrightarrow>
      fst (Stock_save up d s) = Inr () \<and>
      get_stock (snd (snd (Stock_save up d s))) (stock_id s) = Some (s\<lparr>symbol := up (symbol s)\<rparr>))"
proof (intro conjI impI)
  assume "current_price s \<le> 0"
  then show "fst (Stock_save up d s) = Inl InvalidStock" and "snd (snd (Stock_save up d s)) = d"
    by (simp_all add: Stock_save_rejected)
next
  assume "p \<le> 0"
  then show "fst (Stock_objects_create up d now smb nm p) = Inl InvalidStock"
    and "snd (snd (Stock_objects_create up d now smb nm p)) = d"
    by (simp_all add: Stock_objects_create_def Stock_save_rejected)
next
  assume "0 < current_price s"
  then show "fst (Stock_save up d s) = Inr ()"
    by (simp add: Stock_save_accepted)
next
  assume "0 < current_price s"
  then show "get_stock (snd (snd (Stock_save up d s))) (stock_id s) = Some (s\<lparr>symbol := up (symbol s)\<rparr>)"
    by (rule get_stock_after_save)
qed

theorem stock_price_validation_witness:
  "fst (Stock_objects_create ascii_upper test_db 0 ''MSFT'' ''Microsoft'' (- 50)) = Inl InvalidStock \<and>
   snd (snd (Stock_objects_create ascii_upper test_db 0 ''MSFT'' ''Microsoft'' (- 50))) = test_db \<and>
   fst (Stock_save ascii_upper test_db aapl) = Inr ()"
proof -
  have a: "0 < current_price aapl" by (simp add: aapl_def)
  from stock_price_validation
         [where s = aapl and up = ascii_upper and d = test_db and p = "- 50" and now = 0
            and smb = "''MSFT''" and nm = "''Microsoft''"] a
  show ?thesis by simp
qed

text \<open>
  C9. For a portfolio without holdings, \<open>create_daily_snapshot\<close> returns and appends a
  snapshot whose \<open>total_value\<close> and \<open>cash_balance\<close> both are the portfolio's balance. In
  every case the database afterwards differs from the one before at most in the
  snapshots, and the snapshots recorded before are still there, unchanged and first.
\<close>

theorem snapshot_without_holdings:
  "(holdings_all d self = [] \<longrightarrow>
      create_daily_snapshot d now self =
        (Inr \<lparr>s_portfolio = portfolio_id self, total_value = balance self,
               cash_balance = balance self, s_timestamp = now\<rparr>,
         d\<lparr>snapshots := snapshots d @
              [\<lparr>s_portfolio = portfolio_id self, total_value = balance self,
                cash_balance = balance self, s_timestamp = now\<rparr>]\<rparr>)) \<and>
   (snd (create_daily_snapshot d now self))\<lparr>snapshots := snapshots d\<rparr> = d \<and>
   take (length (snapshots d)) (snapshots (snd (create_daily_snapshot d now self))) = snapshots d"
  using create_daily_snapshot_no_holdings [of d self now] create_daily_snapshot_appends [of d now self]
  by blast

theorem snapshot_without_holdings_witness:
  "map_sum id total_value (fst (create_daily_snapshot test_db 9 testuser_portfolio)) = Inr 1000 \<and>
   map_sum id cash_balance (fst (create_daily_snapshot test_db 9 testuser_portfolio)) = Inr 1000 \<and>
   portfolios (snd (create_daily_snapshot test_db 9 testuser_portfolio)) = [testuser_portfolio]"
proof -
  have h: "holdings_all test_db testuser_portfolio = []"
    by (simp add: holdings_all_def test_db_def)
  from snapshot_without_holdings [of test_db testuser_portfolio 9] h
  have "create_daily_snapshot test_db 9 testuser_portfolio =
        (Inr \<lparr>s_portfolio = portfolio_id testuser_portfolio, total_value = balance testuser_portfolio,
               cash_balance = balance testuser_portfolio, s_timestamp = 9\<rparr>,
         test_db\<lparr>snapshots := snapshots test_db @
              [\<lparr>s_portfolio = portfolio_id testuser_portfolio, total_value = balance testuser_portfolio,
                cash_balance = balance testuser_portfolio, s_timestamp = 9\<rparr>]\<rparr>)"
    by blast
  then show ?thesis
    by (simp add: testuser_portfolio_def test_db_def)
qed

text \<open>
  C10. A successful buy leaves the stocks table and the snapshots as they were, every
  portfolio row with another key and every holding row of another (portfolio, stock)
  pair as it was, and the transactions recorded before as a prefix of the log, which
  grows by one; the stored portfolio row is the instance, which differs from the one
  handed in only in its balance.
\<close>

theorem buy_stock_frame:
  assumes "buy_stock d now self stk q = (Inr (), s1, d1)"
  shows "stocks d1 = stocks d \<and> snapshots d1 = snapshots d \<and>
         filter (\<lambda>p. portfolio_id p \<noteq> portfolio_id self) (portfolios d1) =
           filter (\<lambda>p. portfolio_id p \<noteq> portfolio_id self) (portfolios d) \<and>
         filter (\<lambda>h. holding_key h \<noteq> (portfolio_id self, stock_id stk)) (holdings d1) =
           filter (\<lambda>h. holding_key h \<noteq> (portfolio_id self, stock_id stk)) (holdings d) \<and>
         take (length (transactions d)) (transactions d1) = transactions d \<and>
         length (transactions d1) = Suc (length (transactions d)) \<and>
         s1 = self\<lparr>balance := balance s1\<rparr> \<and>
         get_portfolio d1 (portfolio_id self) = Some s1"
proof -
  note s = buy_stock_success [OF assms]
  let ?r = "\<lparr>portfolio = portfolio_id self, stock = stock_id stk,
             quantity = held_quantity d (portfolio_id self) (stock_id stk) + q\<rparr>"
  have st: "stocks d1 = stocks d" and sn: "snapshots d1 = snapshots d"
    by (simp_all add: s(3))
  have "filter (\<lambda>p. portfolio_id p \<noteq> portfolio_id self)
          (upsert portfolio_id (debited self stk q) (portfolios d)) =
        filter (\<lambda>p. portfolio_id p \<noteq> portfolio_id self) (portfolios d)"
    by (rule filter_upsert_other) (simp add: debited_def)
  then have pf: "filter (\<lambda>p. portfolio_id p \<noteq> portfolio_id self) (portfolios d1) =
           filter (\<lambda>p. portfolio_id p \<noteq> portfolio_id self) (portfolios d)"
    by (simp add: s(3))
  have "filter (\<lambda>h. holding_key h \<noteq> (portfolio_id self, stock_id stk))
          (upsert holding_key ?r (holdings d)) =
        filter (\<lambda>h. holding_key h \<noteq> (portfolio_id self, stock_id stk)) (holdings d)"
    by (rule filter_upsert_other) (simp add: holding_key_def)
  then have ho: "filter (\<lambda>h. holding_key h \<noteq> (portfolio_id self, stock_id stk)) (holdings d1) =
           filter (\<lambda>h. holding_key h \<noteq> (portfolio_id self, stock_id stk)) (holdings d)"
    by (simp add: s(3))
  have tr: "take (length (transactions d)) (transactions d1) = transactions d"
    and ln: "length (transactions d1) = Suc (length (transactions d))"
    by (simp_all add: s(3))
  have eq: "s1 = self\<lparr>balance := balance s1\<rparr>"
    by (simp add: s(2) debited_def)
  have gp: "get_portfolio d1 (portfolio_id self) = Some s1"
    unfolding s(3) get_portfolio_after_buy by (simp add: s(2))
  from st sn pf ho tr ln eq gp show ?thesis by simp
qed

theorem buy_stock_frame_witness:
  "fst (buy_stock busy_db 5 testuser_portfolio aapl 2) = Inr () \<and>
   stocks (snd (snd (buy_stock busy_db 5 testuser_portfolio aapl 2))) = [aapl, googl] \<and>
   snapshots (snd (snd (buy_stock busy_db 5 testuser_portfolio aapl 2))) = snapshots busy_db \<and>
   filter (\<lambda>p. portfolio_id p \<noteq> 1)
     (portfolios (snd (snd (buy_stock busy_db 5 testuser_portfolio aapl 2)))) = [other_portfolio] \<and>
   filter (\<lambda>h. holding_key h \<noteq> (1, 1))
     (holdings (snd (snd (buy_stock busy_db 5 testuser_portfolio aapl 2)))) =
     [\<lparr>portfolio = 2, stock = 1, quantity = 4\<rparr>, \<lparr>portfolio = 1, stock = 2, quantity = 3\<rparr>] \<and>
   take 1 (transactions (snd (snd (buy_stock busy_db 5 testuser_portfolio aapl 2)))) =
     transactions busy_db"
proof -
  have ids: "portfolio_id testuser_portfolio = 1" "stock_id aapl = 1"
    by (simp_all add: testuser_portfolio_def aapl_def)
  have b: "stocks busy_db = [aapl, googl]" "length (transactions busy_db) = 1"
    "filter (\<lambda>p. portfolio_id p \<noteq> 1) (portfolios busy_db) = [other_portfolio]"
    "filter (\<lambda>h. holding_key h \<noteq> (1, 1)) (holdings busy_db) =
       [\<lparr>portfolio = 2, stock = 1, quantity = 4\<rparr>, \<lparr>portfolio = 1, stock = 2, quantity = 3\<rparr>]"
    by (simp_all add: busy_db_def testuser_portfolio_def other_portfolio_def holding_key_def)
  from buy_stock_frame [OF busy_buy_two] b show ?thesis
    by (simp add: busy_buy_two ids del: One_nat_def)
qed

end
